theory Spec2Isabelle
  imports Complex_Main
begin

section \<open>Checkout page of the scholarship application client\<close>

text \<open>
  The development embeds \<^verbatim>\<open>src/scholarstream-client/src/pages/Checkout.jsx\<close>:
  the total computed from the two fee fields, the effect that asks the backend for a
  payment intent, the submit handler \<^verbatim>\<open>onSubmit\<close> and the guard of the submit button.

  Conventions of the embedding.
  \<^item> A fee field holds a JavaScript value: a number, \<^verbatim>\<open>null\<close>, or \<^verbatim>\<open>undefined\<close> when
    the field is missing. A number is an IEEE-754 double: not-a-number, an infinity, the
    negative zero, or a finite double given by its exact rational value. Addition rounds
    the exact sum to the nearest double, ties to even.
  \<^item> An awaited call either resolves with a value or rejects; a rejection, and a property
    read on \<^verbatim>\<open>undefined\<close>, is an exception, carried as the left summand of a result.
  \<^item> The backend is a pair of lists of stored records. A POST that resolves appends its
    record; a POST that rejects stores nothing.
  \<^item> Every call to the payment SDK, the backend, the router, the toast library and the
    state setter is appended to a trace, in program order. The router, the toast library,
    the console and the state setter do not fail.
\<close>

subsection \<open>JavaScript numbers\<close>

text \<open>
  The values of the type Number. \<open>Fin r\<close> is the finite double whose exact value is the
  rational \<open>r\<close>, and \<open>Fin 0\<close> is the positive zero.
\<close>

datatype number = NaN | PosInfinity | NegInfinity | NegZero | Fin rat

datatype jsval = Undefined | Null | Number number

abbreviation Num :: "rat \<Rightarrow> jsval" where
  "Num r \<equiv> Number (Fin r)"

text \<open>
  The exponent of the unit in the last place of a positive rational \<open>a\<close>: the least \<open>e\<close>
  from \<open>-1074\<close> (the subnormal spacing) to \<open>971\<close> with \<open>a < 2 ^ (53 + e)\<close>, so that
  \<open>a / 2 ^ e\<close> has at most 53 binary digits before the point. There is none when
  \<open>a\<close> is \<open>2 ^ 1024\<close> or more.
\<close>

definition exponent_of :: "rat \<Rightarrow> int option" where
  "exponent_of a = find (\<lambda>e. a < 2 powi (53 + e)) [- 1074..971]"

text \<open>The nearest integer, and the even one of the two when they are equally near.\<close>

definition round_half_even :: "rat \<Rightarrow> int" where
  "round_half_even q =
     (let f = \<lfloor>q\<rfloor>; d = q - of_int f in
      if d < 1 / 2 then f else if 1 / 2 < d then f + 1 else if even f then f else f + 1)"

text \<open>
  Rounding of an exact value to a double, in the mode round to nearest, ties to even: the
  significand is rounded to an integer number of units in the last place; a result of
  \<open>2 ^ 1024\<close> or more is an infinity; a result that rounds to nothing keeps the sign.
\<close>

definition round_double :: "rat \<Rightarrow> number" where
  "round_double x =
     (if x = 0 then Fin 0
      else
        (case exponent_of \<bar>x\<bar> of
           None \<Rightarrow> (if 0 < x then PosInfinity else NegInfinity)
         | Some e \<Rightarrow>
             (let m = round_half_even (\<bar>x\<bar> / 2 powi e) in
              if m = 0 then (if x < 0 then NegZero else Fin 0)
              else if 2 ^ 1024 \<le> of_int m * (2 :: rat) powi e
                then (if 0 < x then PosInfinity else NegInfinity)
              else Fin (sgn x * (of_int m * 2 powi e)))))"

text \<open>
  A rational is the value of a double when, counted in units in the last place, it is an
  integer.
\<close>

definition is_double :: "rat \<Rightarrow> bool" where
  "is_double x =
     (x = 0 \<or>
      (case exponent_of \<bar>x\<bar> of
         None \<Rightarrow> False
       | Some e \<Rightarrow> of_int \<lfloor>\<bar>x\<bar> / 2 powi e\<rfloor> = \<bar>x\<bar> / 2 powi e))"

text \<open>The values a field of a parsed JSON record can hold: a finite number is a double.\<close>

fun well_formed :: "jsval \<Rightarrow> bool" where
  "well_formed (Number (Fin r)) = is_double r"
| "well_formed v = True"

text \<open>
  \<^verbatim>\<open>Number::add\<close>: not-a-number is absorbing, the two infinities of opposite sign add
  to not-a-number, an infinity absorbs every finite number, the zeros add to the negative
  zero only when both are negative, and two finite numbers add to their exact sum,
  rounded; an exact sum of zero is the positive zero.
\<close>

fun number_add :: "number \<Rightarrow> number \<Rightarrow> number" where
  "number_add NaN y = NaN"
| "number_add x NaN = NaN"
| "number_add PosInfinity NegInfinity = NaN"
| "number_add NegInfinity PosInfinity = NaN"
| "number_add PosInfinity y = PosInfinity"
| "number_add x PosInfinity = PosInfinity"
| "number_add NegInfinity y = NegInfinity"
| "number_add x NegInfinity = NegInfinity"
| "number_add NegZero NegZero = NegZero"
| "number_add NegZero (Fin b) = Fin b"
| "number_add (Fin a) NegZero = Fin a"
| "number_add (Fin a) (Fin b) = round_double (a + b)"

text \<open>\<^verbatim>\<open>x > 0\<close> on numbers: false for not-a-number and for both zeros.\<close>

fun number_gt_zero :: "number \<Rightarrow> bool" where
  "number_gt_zero NaN = False"
| "number_gt_zero PosInfinity = True"
| "number_gt_zero NegInfinity = False"
| "number_gt_zero NegZero = False"
| "number_gt_zero (Fin r) = (0 < r)"

subsection \<open>JavaScript values of the fee fields\<close>

text \<open>
  Truthiness: \<^verbatim>\<open>undefined\<close>, \<^verbatim>\<open>null\<close>, \<^verbatim>\<open>NaN\<close> and the two zeros are falsy; every
  other number is truthy.
\<close>

fun truthy :: "jsval \<Rightarrow> bool" where
  "truthy Undefined = False"
| "truthy Null = False"
| "truthy (Number NaN) = False"
| "truthy (Number NegZero) = False"
| "truthy (Number (Fin r)) = (r \<noteq> 0)"
| "truthy (Number n) = True"

text \<open>\<^verbatim>\<open>a || b\<close>\<close>

definition js_or :: "jsval \<Rightarrow> jsval \<Rightarrow> jsval" where
  "js_or a b = (if truthy a then a else b)"

text \<open>\<^verbatim>\<open>ToNumber\<close>: \<^verbatim>\<open>null\<close> is the positive zero, \<^verbatim>\<open>undefined\<close> is \<^verbatim>\<open>NaN\<close>.\<close>

fun to_number :: "jsval \<Rightarrow> number" where
  "to_number Undefined = NaN"
| "to_number Null = Fin 0"
| "to_number (Number n) = n"

text \<open>
  \<^verbatim>\<open>a + b\<close>: neither operand is a string or an object here, so both are converted to
  numbers and added.
\<close>

definition js_add :: "jsval \<Rightarrow> jsval \<Rightarrow> jsval" where
  "js_add a b = Number (number_add (to_number a) (to_number b))"

text \<open>\<^verbatim>\<open>a > 0\<close>\<close>

definition js_gt_zero :: "jsval \<Rightarrow> bool" where
  "js_gt_zero a = number_gt_zero (to_number a)"

subsection \<open>Data\<close>

record scholarship =
  scholarship_id :: string
  universityName :: string
  universityCountry :: string
  scholarshipName :: string
  scholarshipCategory :: string
  subjectCategory :: string
  degree :: string
  applicationFees :: jsval
  serviceCharge :: jsval

record user =
  uid :: string
  displayName :: string
  email :: string

text \<open>The optional study gap is \<open>None\<close> when the form leaves it \<^verbatim>\<open>undefined\<close>.\<close>

record form_data =
  phone :: string
  address :: string
  sscResult :: string
  hscResult :: string
  studyGap :: "string option"

record application =
  app_scholarshipId :: string
  app_userId :: string
  app_userName :: string
  app_userEmail :: string
  app_universityName :: string
  app_universityCountry :: string
  app_scholarshipName :: string
  app_scholarshipCategory :: string
  app_subjectCategory :: string
  app_degree :: string
  app_applicationFees :: jsval
  app_serviceCharge :: jsval
  app_applicationStatus :: string
  app_paymentStatus :: string
  app_applicationDate :: string
  app_phone :: string
  app_address :: string
  app_sscResult :: string
  app_hscResult :: string
  app_studyGap :: string

record payment =
  pay_email :: string
  pay_transactionId :: string
  pay_amount :: jsval
  pay_scholarshipId :: string
  pay_scholarshipName :: string
  pay_date :: string

record failed_state =
  fs_scholarshipName :: string
  fs_error :: string

record success_state =
  ss_scholarshipName :: string
  ss_universityName :: string
  ss_amount :: jsval
  ss_transactionId :: string

datatype nav_state = FailedState failed_state | SuccessState success_state

subsection \<open>Results of the payment SDK\<close>

record stripe_error =
  message :: string

record payment_method =
  pm_id :: string

record payment_intent =
  pi_id :: string
  pi_status :: string

text \<open>The object \<^verbatim>\<open>{ error, paymentMethod }\<close>; an absent field is \<open>None\<close>.\<close>

record method_result =
  methodError :: "stripe_error option"
  paymentMethod :: "payment_method option"

text \<open>The object \<^verbatim>\<open>{ error, paymentIntent }\<close>.\<close>

record confirm_result =
  confirmError :: "stripe_error option"
  paymentIntent :: "payment_intent option"

datatype 'a await = Rejects string | Resolves 'a

datatype exn = Rejection string | TypeError

subsection \<open>Trace and state\<close>

datatype event =
    SetProcessing bool
  | CreatePaymentMethod string string
  | ConfirmCardPayment string string
  | ToastError string
  | ConsoleError
  | PostCreatePaymentIntent jsval
  | PostApplications application
  | PostPayments payment
  | Navigate string nav_state

text \<open>
  The component's hooks (\<open>stripe\<close> and \<open>elements\<close> are \<open>True\<close> when the hook returns
  an object rather than \<^verbatim>\<open>null\<close>), the two pieces of React state, the backend's stored
  records and the trace.
\<close>

record world =
  stripe :: bool
  elements :: bool
  processing :: bool
  clientSecret :: string
  db_applications :: "application list"
  db_payments :: "payment list"
  trace :: "event list"

text \<open>What the collaborators answer during one submission.\<close>

record env =
  cardElement :: bool
  createPaymentMethod_result :: "method_result await"
  confirmCardPayment_result :: "confirm_result await"
  post_applications_result :: "unit await"
  post_payments_result :: "unit await"
  now_application :: string
  now_payment :: string

definition emit :: "event \<Rightarrow> world \<Rightarrow> world" where
  "emit e w = w\<lparr>trace := trace w @ [e]\<rparr>"

definition setProcessing :: "bool \<Rightarrow> world \<Rightarrow> world" where
  "setProcessing b w = emit (SetProcessing b) (w\<lparr>processing := b\<rparr>)"

definition toast_error :: "string \<Rightarrow> world \<Rightarrow> world" where
  "toast_error m w = emit (ToastError m) w"

definition console_error :: "world \<Rightarrow> world" where
  "console_error w = emit ConsoleError w"

definition navigate :: "string \<Rightarrow> nav_state \<Rightarrow> world \<Rightarrow> world" where
  "navigate route st w = emit (Navigate route st) w"

subsection \<open>The total\<close>

text \<open>Line 25, in \<^verbatim>\<open>CheckoutForm\<close>.\<close>

definition totalAmount :: "scholarship \<Rightarrow> jsval" where
  "totalAmount s =
     js_add (js_or (applicationFees s) (Num 0)) (js_or (serviceCharge s) (Num 0))"

text \<open>Line 332, in \<^verbatim>\<open>Checkout\<close>: the total of the order summary.\<close>

definition Checkout_totalAmount :: "scholarship \<Rightarrow> jsval" where
  "Checkout_totalAmount s =
     js_add (js_or (applicationFees s) (Num 0)) (js_or (serviceCharge s) (Num 0))"

subsection \<open>The records the handler builds\<close>

text \<open>\<^verbatim>\<open>formData.studyGap || ''\<close>\<close>

definition or_empty :: "string option \<Rightarrow> string" where
  "or_empty x = (case x of None \<Rightarrow> [] | Some s \<Rightarrow> (if s = [] then [] else s))"

text \<open>
  The object literal \<^verbatim>\<open>applicationData\<close> of lines 79-100 and of lines 115-136; the two
  differ in \<^verbatim>\<open>paymentStatus\<close> only, which is the parameter \<open>status\<close>. The date
  is the clock's reading when the literal is evaluated.
\<close>

definition applicationData ::
  "scholarship \<Rightarrow> user \<Rightarrow> form_data \<Rightarrow> string \<Rightarrow> string \<Rightarrow> application" where
  "applicationData s u f status date =
     \<lparr> app_scholarshipId = scholarship_id s,
       app_userId = uid u,
       app_userName = displayName u,
       app_userEmail = email u,
       app_universityName = universityName s,
       app_universityCountry = universityCountry s,
       app_scholarshipName = scholarshipName s,
       app_scholarshipCategory = scholarshipCategory s,
       app_subjectCategory = subjectCategory s,
       app_degree = degree s,
       app_applicationFees = applicationFees s,
       app_serviceCharge = serviceCharge s,
       app_applicationStatus = ''pending'',
       app_paymentStatus = status,
       app_applicationDate = date,
       app_phone = phone f,
       app_address = address f,
       app_sscResult = sscResult f,
       app_hscResult = hscResult f,
       app_studyGap = or_empty (studyGap f) \<rparr>"

text \<open>The body of the POST to \<^verbatim>\<open>/payments\<close>, lines 141-148.\<close>

definition paymentData :: "scholarship \<Rightarrow> user \<Rightarrow> payment_intent \<Rightarrow> string \<Rightarrow> payment" where
  "paymentData s u p date =
     \<lparr> pay_email = email u,
       pay_transactionId = pi_id p,
       pay_amount = totalAmount s,
       pay_scholarshipId = scholarship_id s,
       pay_scholarshipName = scholarshipName s,
       pay_date = date \<rparr>"

text \<open>The router state of \<^verbatim>\<open>/payment-failed\<close>, lines 104-109.\<close>

definition failedState :: "scholarship \<Rightarrow> stripe_error \<Rightarrow> nav_state" where
  "failedState s e =
     FailedState \<lparr> fs_scholarshipName = scholarshipName s, fs_error = message e \<rparr>"

text \<open>The router state of \<^verbatim>\<open>/payment-success\<close>, lines 150-157.\<close>

definition successState :: "scholarship \<Rightarrow> payment_intent \<Rightarrow> nav_state" where
  "successState s p =
     SuccessState \<lparr> ss_scholarshipName = scholarshipName s,
                    ss_universityName = universityName s,
                    ss_amount = totalAmount s,
                    ss_transactionId = pi_id p \<rparr>"

subsection \<open>The awaited calls\<close>

text \<open>
  Each call is traced when it is made. Its answer comes from the environment: a rejected
  promise is the exception \<open>Rejection\<close>.
\<close>

definition createPaymentMethod :: "env \<Rightarrow> user \<Rightarrow> world \<Rightarrow> (exn + method_result) \<times> world" where
  "createPaymentMethod en u w =
     (let w1 = emit (CreatePaymentMethod (displayName u) (email u)) w in
      case createPaymentMethod_result en of
        Rejects m \<Rightarrow> (Inl (Rejection m), w1)
      | Resolves r \<Rightarrow> (Inr r, w1))"

definition confirmCardPayment ::
  "env \<Rightarrow> string \<Rightarrow> string \<Rightarrow> world \<Rightarrow> (exn + confirm_result) \<times> world" where
  "confirmCardPayment en secret pm w =
     (let w1 = emit (ConfirmCardPayment secret pm) w in
      case confirmCardPayment_result en of
        Rejects m \<Rightarrow> (Inl (Rejection m), w1)
      | Resolves r \<Rightarrow> (Inr r, w1))"

definition post_applications :: "env \<Rightarrow> application \<Rightarrow> world \<Rightarrow> (exn + unit) \<times> world" where
  "post_applications en a w =
     (let w1 = emit (PostApplications a) w in
      case post_applications_result en of
        Rejects m \<Rightarrow> (Inl (Rejection m), w1)
      | Resolves _ \<Rightarrow> (Inr (), w1\<lparr>db_applications := db_applications w1 @ [a]\<rparr>))"

definition post_payments :: "env \<Rightarrow> payment \<Rightarrow> world \<Rightarrow> (exn + unit) \<times> world" where
  "post_payments en p w =
     (let w1 = emit (PostPayments p) w in
      case post_payments_result en of
        Rejects m \<Rightarrow> (Inl (Rejection m), w1)
      | Resolves _ \<Rightarrow> (Inr (), w1\<lparr>db_payments := db_payments w1 @ [p]\<rparr>))"

subsection \<open>The submit handler\<close>

text \<open>
  The \<^verbatim>\<open>try\<close> block, lines 55-158. \<open>Inl\<close> is an exception that leaves the block,
  \<open>Inr ()\<close> is the block ending or returning. \<^verbatim>\<open>paymentMethod.id\<close> and
  \<^verbatim>\<open>paymentIntent.status\<close> throw a \<open>TypeError\<close> when the object is absent. A
  payment intent whose status is not \<^verbatim>\<open>'succeeded'\<close> falls through the last
  \<^verbatim>\<open>if\<close>, which has no \<^verbatim>\<open>else\<close>.
\<close>

definition onSubmit_try ::
  "env \<Rightarrow> scholarship \<Rightarrow> user \<Rightarrow> form_data \<Rightarrow> world \<Rightarrow> (exn + unit) \<times> world" where
  "onSubmit_try en s u f w =
     (case createPaymentMethod en u w of
        (Inl x, w1) \<Rightarrow> (Inl x, w1)
      | (Inr mr, w1) \<Rightarrow>
          (case methodError mr of
             Some me \<Rightarrow> (Inr (), setProcessing False (toast_error (message me) w1))
           | None \<Rightarrow>
               (case paymentMethod mr of
                  None \<Rightarrow> (Inl TypeError, w1)
                | Some pm \<Rightarrow>
                    (case confirmCardPayment en (clientSecret w1) (pm_id pm) w1 of
                       (Inl x, w2) \<Rightarrow> (Inl x, w2)
                     | (Inr cr, w2) \<Rightarrow>
                         (case confirmError cr of
                            Some ce \<Rightarrow>
                              (case post_applications en
                                      (applicationData s u f ''unpaid'' (now_application en)) w2 of
                                 (Inl x, w3) \<Rightarrow> (Inl x, w3)
                               | (Inr _, w3) \<Rightarrow>
                                   (Inr (), navigate ''/payment-failed'' (failedState s ce) w3))
                          | None \<Rightarrow>
                              (case paymentIntent cr of
                                 None \<Rightarrow> (Inl TypeError, w2)
                               | Some p \<Rightarrow>
                                   if pi_status p = ''succeeded'' then
                                     (case post_applications en
                                             (applicationData s u f ''paid'' (now_application en)) w2 of
                                        (Inl x, w3) \<Rightarrow> (Inl x, w3)
                                      | (Inr _, w3) \<Rightarrow>
                                          (case post_payments en
                                                  (paymentData s u p (now_payment en)) w3 of
                                             (Inl x, w4) \<Rightarrow> (Inl x, w4)
                                           | (Inr _, w4) \<Rightarrow>
                                               (Inr (),
                                                navigate ''/payment-success'' (successState s p) w4)))
                                   else (Inr (), w2)))))))"

text \<open>
  \<^verbatim>\<open>onSubmit\<close>, lines 41-165: the two guards before the \<^verbatim>\<open>try\<close>, then the block with
  its \<^verbatim>\<open>catch\<close> (log, generic toast) and its \<^verbatim>\<open>finally\<close> (clear the flag).
\<close>

definition onSubmit :: "env \<Rightarrow> scholarship \<Rightarrow> user \<Rightarrow> form_data \<Rightarrow> world \<Rightarrow> world" where
  "onSubmit en s u f w =
     (if \<not> stripe w \<or> \<not> elements w then w
      else
        let w1 = setProcessing True w in
        if \<not> cardElement en then setProcessing False w1
        else
          (case onSubmit_try en s u f w1 of
             (Inl x, w2) \<Rightarrow>
               setProcessing False (toast_error ''Payment processing failed'' (console_error w2))
           | (Inr _, w2) \<Rightarrow> setProcessing False w2))"

text \<open>Whether the \<^verbatim>\<open>try\<close> block of a submission that reaches it is left by an exception.\<close>

definition throws :: "env \<Rightarrow> scholarship \<Rightarrow> user \<Rightarrow> form_data \<Rightarrow> world \<Rightarrow> bool" where
  "throws en s u f w =
     (stripe w \<and> elements w \<and> cardElement en \<and>
      (case fst (onSubmit_try en s u f (setProcessing True w)) of
         Inl _ \<Rightarrow> True
       | Inr _ \<Rightarrow> False))"

subsection \<open>The submit button\<close>

text \<open>
  Line 282: \<^verbatim>\<open>disabled={!stripe || !clientSecret || processing}\<close>. The empty string is
  the falsy handle.
\<close>

definition submit_disabled :: "world \<Rightarrow> bool" where
  "submit_disabled w = (\<not> stripe w \<or> clientSecret w = [] \<or> processing w)"

subsection \<open>The payment intent effect\<close>

text \<open>
  The body of the effect, lines 29-38. The answer of the backend is a parameter; its
  handlers run before the next render in this model.
\<close>

definition payment_intent_effect :: "string await \<Rightarrow> scholarship \<Rightarrow> world \<Rightarrow> world" where
  "payment_intent_effect answer s w =
     (if js_gt_zero (totalAmount s) then
        (let w1 = emit (PostCreatePaymentIntent (totalAmount s)) w in
         case answer of
           Resolves secret \<Rightarrow> w1\<lparr>clientSecret := secret\<rparr>
         | Rejects m \<Rightarrow> toast_error ''Failed to initialize payment'' (console_error w1))
      else w)"

text \<open>
  One render of \<^verbatim>\<open>CheckoutForm\<close>: the scholarship it is given, the identity of the object
  \<^verbatim>\<open>useAxiosSecure()\<close> returns (that hook is not part of the page; the identity is a
  parameter) and the backend's answer should the effect ask.
\<close>

record render =
  r_scholarship :: scholarship
  r_axiosSecure :: nat
  r_answer :: "string await"

text \<open>The dependency array of line 39.\<close>

definition deps :: "render \<Rightarrow> jsval \<times> nat" where
  "deps r = (totalAmount (r_scholarship r), r_axiosSecure r)"

text \<open>
  \<^verbatim>\<open>useEffect\<close>: the effect runs after the first render, and after a later render when
  a dependency differs from the previous render's.
\<close>

definition effect_runs :: "(jsval \<times> nat) option \<Rightarrow> jsval \<times> nat \<Rightarrow> bool" where
  "effect_runs prev d = (case prev of None \<Rightarrow> True | Some p \<Rightarrow> p \<noteq> d)"

fun renders :: "(jsval \<times> nat) option \<Rightarrow> render list \<Rightarrow> world \<Rightarrow> world" where
  "renders prev [] w = w"
| "renders prev (r # rs) w =
     (if effect_runs prev (deps r)
      then renders (Some (deps r)) rs (payment_intent_effect (r_answer r) (r_scholarship r) w)
      else renders (Some (deps r)) rs w)"

text \<open>
  The dependency values at which the effect runs, in a sequence of renders, given the
  previous render's: the first of every run of equal adjacent values.
\<close>

fun runs_at :: "(jsval \<times> nat) option \<Rightarrow> (jsval \<times> nat) list \<Rightarrow> (jsval \<times> nat) list" where
  "runs_at None ds = remdups_adj ds"
| "runs_at (Some p) ds = tl (remdups_adj (p # ds))"

subsection \<open>Reading a trace\<close>

fun intent_requests :: "event list \<Rightarrow> jsval list" where
  "intent_requests [] = []"
| "intent_requests (PostCreatePaymentIntent a # es) = a # intent_requests es"
| "intent_requests (e # es) = intent_requests es"

fun application_posts :: "event list \<Rightarrow> application list" where
  "application_posts [] = []"
| "application_posts (PostApplications a # es) = a # application_posts es"
| "application_posts (e # es) = application_posts es"

fun payment_posts :: "event list \<Rightarrow> payment list" where
  "payment_posts [] = []"
| "payment_posts (PostPayments p # es) = p # payment_posts es"
| "payment_posts (e # es) = payment_posts es"

fun navigations :: "event list \<Rightarrow> (string \<times> nav_state) list" where
  "navigations [] = []"
| "navigations (Navigate r st # es) = (r, st) # navigations es"
| "navigations (e # es) = navigations es"

fun toasts :: "event list \<Rightarrow> string list" where
  "toasts [] = []"
| "toasts (ToastError m # es) = m # toasts es"
| "toasts (e # es) = toasts es"

text \<open>The initial state of a freshly mounted form, before the payment SDK has loaded.\<close>

definition mount :: world where
  "mount = \<lparr> stripe = False, elements = False, processing = False, clientSecret = [],
             db_applications = [], db_payments = [], trace = [] \<rparr>"

text \<open>The part of the second world's trace, and of its stored records, added since the first.\<close>

definition new_events :: "world \<Rightarrow> world \<Rightarrow> event list" where
  "new_events w w' = drop (length (trace w)) (trace w')"

definition new_applications :: "world \<Rightarrow> world \<Rightarrow> application list" where
  "new_applications w w' = drop (length (db_applications w)) (db_applications w')"

definition new_payments :: "world \<Rightarrow> world \<Rightarrow> payment list" where
  "new_payments w w' = drop (length (db_payments w)) (db_payments w')"

text \<open>The events of a trace before the first call of \<^verbatim>\<open>confirmCardPayment\<close>.\<close>

fun before_confirm :: "event list \<Rightarrow> event list" where
  "before_confirm [] = []"
| "before_confirm (ConfirmCardPayment c p # es) = []"
| "before_confirm (e # es) = e # before_confirm es"

subsection \<open>A concrete checkout\<close>

definition scholarship0 :: scholarship where
  "scholarship0 =
     \<lparr> scholarship_id = ''s1'', universityName = ''MIT'', universityCountry = ''USA'',
       scholarshipName = ''Merit'', scholarshipCategory = ''Full fund'',
       subjectCategory = ''Engineering'', degree = ''Masters'',
       applicationFees = Num 100, serviceCharge = Num 50 \<rparr>"

definition user0 :: user where
  "user0 = \<lparr> uid = ''u1'', displayName = ''Ada'', email = ''ada@example.org'' \<rparr>"

definition form0 :: form_data where
  "form0 = \<lparr> phone = ''123'', address = ''Dhaka'', sscResult = ''5.00'', hscResult = ''5.00'',
             studyGap = None \<rparr>"

text \<open>The form once the payment SDK has loaded and a handle has been obtained.\<close>

definition ready0 :: world where
  "ready0 = mount\<lparr> stripe := True, elements := True, clientSecret := ''cs_1'' \<rparr>"

definition intent0 :: payment_intent where
  "intent0 = \<lparr> pi_id = ''pi_123'', pi_status = ''succeeded'' \<rparr>"

text \<open>Every collaborator answers well: the card is tokenized and the charge succeeds.\<close>

definition env_paid :: env where
  "env_paid =
     \<lparr> cardElement = True,
       createPaymentMethod_result =
         Resolves \<lparr> methodError = None, paymentMethod = Some \<lparr> pm_id = ''pm_1'' \<rparr> \<rparr>,
       confirmCardPayment_result =
         Resolves \<lparr> confirmError = None, paymentIntent = Some intent0 \<rparr>,
       post_applications_result = Resolves (),
       post_payments_result = Resolves (),
       now_application = ''2025-01-01T00:00:00.000Z'',
       now_payment = ''2025-01-01T00:00:01.000Z'' \<rparr>"

text \<open>The charge is declined.\<close>

definition env_declined :: env where
  "env_declined =
     env_paid\<lparr> confirmCardPayment_result :=
       Resolves \<lparr> confirmError = Some \<lparr> message = ''Your card was declined'' \<rparr>,
                  paymentIntent = None \<rparr> \<rparr>"

text \<open>The card cannot be tokenized.\<close>

definition env_incomplete :: env where
  "env_incomplete =
     env_paid\<lparr> createPaymentMethod_result :=
       Resolves \<lparr> methodError = Some \<lparr> message = ''Your card number is incomplete'' \<rparr>,
                  paymentMethod = None \<rparr> \<rparr>"

text \<open>The charge succeeds and the backend rejects the POST to \<^verbatim>\<open>/applications\<close>.\<close>

definition env_paid_applications_down :: env where
  "env_paid_applications_down = env_paid\<lparr> post_applications_result := Rejects ''Network Error'' \<rparr>"

text \<open>The charge succeeds and the backend rejects the POST to \<^verbatim>\<open>/payments\<close>.\<close>

definition env_paid_payments_down :: env where
  "env_paid_payments_down = env_paid\<lparr> post_payments_result := Rejects ''Network Error'' \<rparr>"

text \<open>The charge is declined and the backend rejects the POST to \<^verbatim>\<open>/applications\<close>.\<close>

definition env_declined_applications_down :: env where
  "env_declined_applications_down =
     env_declined\<lparr> post_applications_result := Rejects ''Network Error'' \<rparr>"

text \<open>The payment SDK's promise for the charge rejects.\<close>

definition env_confirm_rejects :: env where
  "env_confirm_rejects = env_paid\<lparr> confirmCardPayment_result := Rejects ''Network Error'' \<rparr>"


text \<open>Fees of \<open>2 ^ 53\<close> and \<open>1\<close>: both are doubles, their sum is not.\<close>

definition scholarship_huge :: scholarship where
  "scholarship_huge =
     scholarship0\<lparr> applicationFees := Num 9007199254740992, serviceCharge := Num 1 \<rparr>"

text \<open>Fees of \<^verbatim>\<open>0.1\<close> and \<^verbatim>\<open>0.2\<close>, that is, of the doubles nearest to them.\<close>

definition scholarship_tenths :: scholarship where
  "scholarship_tenths =
     scholarship0\<lparr> applicationFees := Num (3602879701896397 / 36028797018963968),
                   serviceCharge := Num (3602879701896397 / 18014398509481984) \<rparr>"

text \<open>A scholarship whose two fees are the infinities of opposite sign.\<close>

definition scholarship_unbounded :: scholarship where
  "scholarship_unbounded =
     scholarship0\<lparr> applicationFees := Number PosInfinity, serviceCharge := Number NegInfinity \<rparr>"

text \<open>Two renders with the same scholarship and two different HTTP client objects.\<close>

definition render0 :: render where
  "render0 = \<lparr> r_scholarship = scholarship0, r_axiosSecure = 0, r_answer = Resolves ''cs_1'' \<rparr>"

definition render1 :: render where
  "render1 = \<lparr> r_scholarship = scholarship0, r_axiosSecure = 1, r_answer = Resolves ''cs_2'' \<rparr>"

text \<open>A scholarship without fees.\<close>

definition scholarship_free :: scholarship where
  "scholarship_free = scholarship0\<lparr> applicationFees := Undefined, serviceCharge := Num 0 \<rparr>"

definition render_free :: render where
  "render_free = \<lparr> r_scholarship = scholarship_free, r_axiosSecure = 0, r_answer = Resolves ''cs_3'' \<rparr>"

section \<open>Properties\<close>

lemmas prim_defs = emit_def setProcessing_def toast_error_def console_error_def navigate_def

lemmas call_defs = createPaymentMethod_def confirmCardPayment_def post_applications_def
  post_payments_def

lemmas onSubmit_defs = onSubmit_def onSubmit_try_def call_defs prim_defs Let_def

lemmas new_defs = new_events_def new_applications_def new_payments_def

lemmas example_defs = ready0_def mount_def scholarship0_def user0_def form0_def intent0_def
  env_paid_def env_declined_def env_incomplete_def env_paid_applications_down_def
  env_paid_payments_down_def env_declined_applications_down_def env_confirm_rejects_def

text \<open>
  A submission only appends: to the trace and to the stored records. So \<open>new_events\<close>,
  \<open>new_applications\<close> and \<open>new_payments\<close> are what one submission added.
\<close>

lemma onSubmit_extends:
  "trace (onSubmit en s u f w) = trace w @ new_events w (onSubmit en s u f w)
   \<and> db_applications (onSubmit en s u f w) =
       db_applications w @ new_applications w (onSubmit en s u f w)
   \<and> db_payments (onSubmit en s u f w) = db_payments w @ new_payments w (onSubmit en s u f w)"
  by (auto simp: onSubmit_defs new_defs split: await.splits option.splits)

text \<open>The handler never touches the authorization handle.\<close>

lemma clientSecret_onSubmit: "clientSecret (onSubmit en s u f w) = clientSecret w"
  by (simp add: onSubmit_defs split: await.splits option.splits)

subsection \<open>The submit button\<close>

text \<open>
  C6. In every state the submit control is enabled if and only if the payment SDK is
  ready (\<open>stripe\<close>), an authorization handle is present (\<open>clientSecret\<close> is not the empty
  string) and no submission is processing.
\<close>

theorem submit_enabled_iff:
  "(\<not> submit_disabled w) = (stripe w \<and> clientSecret w \<noteq> [] \<and> \<not> processing w)"
  by (simp add: submit_disabled_def)

theorem submit_enabled_iff_witness:
  "\<not> submit_disabled ready0 \<and> stripe ready0 \<and> clientSecret ready0 \<noteq> [] \<and> \<not> processing ready0"
  using submit_enabled_iff [of ready0] by (simp add: ready0_def mount_def)

subsection \<open>Tokenization fails\<close>

text \<open>
  C8. When a submission passes the guards and \<^verbatim>\<open>createPaymentMethod\<close> answers with an
  error, the provider's message is the one toast shown, the processing flag is cleared,
  the stored application and payment records are unchanged, and the trace of the
  submission holds no POST and no navigation: it is exactly the five events listed.
\<close>

theorem tokenization_error_writes_nothing:
  assumes "stripe w" and "elements w" and "cardElement en"
    and "createPaymentMethod_result en = Resolves mr" and "methodError mr = Some me"
  shows "toasts (new_events w (onSubmit en s u f w)) = [message me]
       \<and> \<not> processing (onSubmit en s u f w)
       \<and> db_applications (onSubmit en s u f w) = db_applications w
       \<and> db_payments (onSubmit en s u f w) = db_payments w
       \<and> new_events w (onSubmit en s u f w) =
           [SetProcessing True, CreatePaymentMethod (displayName u) (email u),
            ToastError (message me), SetProcessing False, SetProcessing False]"
  using assms by (simp add: onSubmit_defs new_defs)

theorem tokenization_error_writes_nothing_witness:
  "stripe ready0 \<and> elements ready0 \<and> cardElement env_incomplete
   \<and> createPaymentMethod_result env_incomplete =
       Resolves \<lparr> methodError = Some \<lparr> message = ''Your card number is incomplete'' \<rparr>,
                  paymentMethod = None \<rparr>
   \<and> toasts (new_events ready0 (onSubmit env_incomplete scholarship0 user0 form0 ready0)) =
       [''Your card number is incomplete'']
   \<and> \<not> processing (onSubmit env_incomplete scholarship0 user0 form0 ready0)
   \<and> db_applications (onSubmit env_incomplete scholarship0 user0 form0 ready0) = []
   \<and> db_payments (onSubmit env_incomplete scholarship0 user0 form0 ready0) = []"
  using tokenization_error_writes_nothing
    [where w = ready0 and en = env_incomplete and s = scholarship0 and u = user0 and f = form0
       and me = "\<lparr> message = ''Your card number is incomplete'' \<rparr>"
       and mr = "\<lparr> methodError = Some \<lparr> message = ''Your card number is incomplete'' \<rparr>,
                   paymentMethod = None \<rparr>"]
  by (simp add: ready0_def mount_def env_incomplete_def env_paid_def)

subsection \<open>Doubles\<close>

lemma find_upto_Some:
  "(find P [i..j] = Some e) = (i \<le> e \<and> e \<le> j \<and> P e \<and> (\<forall>k. i \<le> k \<and> k < e \<longrightarrow> \<not> P k))"
proof (induction i j rule: upto.induct)
  case (1 i j)
  show ?case
  proof (cases "i \<le> j")
    case False
    then show ?thesis by auto
  next
    case True
    then have u: "[i..j] = i # [i + 1..j]"
      by (rule upto_rec1)
    show ?thesis
    proof (cases "P i")
      case True
      then show ?thesis
        using \<open>i \<le> j\<close> u by (auto simp: not_less)
    next
      case False
      have "(find P [i..j] = Some e) = (find P [i + 1..j] = Some e)"
        using False u by simp
      also have "\<dots> = (i + 1 \<le> e \<and> e \<le> j \<and> P e \<and> (\<forall>k. i + 1 \<le> k \<and> k < e \<longrightarrow> \<not> P k))"
        using "1.IH" True by simp
      also have "\<dots> = (i \<le> e \<and> e \<le> j \<and> P e \<and> (\<forall>k. i \<le> k \<and> k < e \<longrightarrow> \<not> P k))"
        using False
        by (metis add1_zle_eq order_le_less zless_imp_add1_zle order.strict_implies_order)
      finally show ?thesis .
    qed
  qed
qed

lemma exponent_of_Some:
  "(exponent_of a = Some e) =
     (- 1074 \<le> e \<and> e \<le> 971 \<and> a < 2 powi (53 + e)
      \<and> (\<forall>k. - 1074 \<le> k \<and> k < e \<longrightarrow> 2 powi (53 + k) \<le> a))"
  by (simp only: exponent_of_def find_upto_Some not_less)

lemma powi2_mono: "i \<le> j \<Longrightarrow> (2 :: rat) powi i \<le> 2 powi j"
  by (rule power_int_increasing) simp_all

text \<open>The exponent of a value known to lie in a binade, or below the least normal one.\<close>

lemma exponent_of_binade:
  assumes "- 1074 \<le> e" and "e \<le> 971" and "a < 2 powi (53 + e)"
    and "e = - 1074 \<or> 2 powi (52 + e) \<le> a"
  shows "exponent_of a = Some e"
proof -
  have "2 powi (53 + k) \<le> a" if "- 1074 \<le> k" and "k < e" for k
  proof -
    have "e \<noteq> - 1074" using that by simp
    then have "2 powi (52 + e) \<le> a" using assms(4) by simp
    moreover have "(2 :: rat) powi (53 + k) \<le> 2 powi (52 + e)"
      using that by (intro powi2_mono) simp
    ultimately show ?thesis by simp
  qed
  then show ?thesis
    using assms by (simp add: exponent_of_Some)
qed

lemma exponent_of_le:
  assumes "- 1074 \<le> k" and "k \<le> 971" and "a < 2 powi (53 + k)"
  shows "\<exists>e. exponent_of a = Some e \<and> - 1074 \<le> e \<and> e \<le> k"
proof (cases "exponent_of a")
  case None
  then have "\<not> (\<exists>e \<in> set [- 1074..971]. a < 2 powi (53 + e))"
    unfolding exponent_of_def find_None_iff by blast
  then have n: "\<not> (\<exists>e \<in> {- 1074..971}. a < 2 powi (53 + e))"
    by (simp only: set_upto not_False_eq_True)
  have "k \<in> {- 1074..971}"
    using assms(1,2) by simp
  then have False
    using n assms(3) by blast
  then show ?thesis ..
next
  case (Some e)
  then have e: "- 1074 \<le> e" "\<forall>j. - 1074 \<le> j \<and> j < e \<longrightarrow> 2 powi (53 + j) \<le> a"
    by (simp_all add: exponent_of_Some)
  have "e \<le> k"
  proof (rule ccontr)
    assume "\<not> e \<le> k"
    then have "2 powi (53 + k) \<le> a" using e(2) assms(1) by simp
    then show False using assms(3) by simp
  qed
  then show ?thesis using Some e(1) by simp
qed

lemma round_half_even_of_int: "round_half_even (of_int n) = n"
  by (simp add: round_half_even_def)

text \<open>Rounding leaves a double as it is.\<close>

lemma round_double_fixed:
  assumes "is_double x"
  shows "round_double x = Fin x"
proof (cases "x = 0")
  case True
  then show ?thesis by (simp add: round_double_def)
next
  case False
  have d: "case exponent_of \<bar>x\<bar> of
             None \<Rightarrow> False
           | Some e \<Rightarrow> of_int \<lfloor>\<bar>x\<bar> / 2 powi e\<rfloor> = \<bar>x\<bar> / 2 powi e"
    using assms False unfolding is_double_def by blast
  obtain e where e: "exponent_of \<bar>x\<bar> = Some e"
    using d by (cases "exponent_of \<bar>x\<bar>") simp_all
  have i: "of_int \<lfloor>\<bar>x\<bar> / 2 powi e\<rfloor> = \<bar>x\<bar> / 2 powi e"
    by (rule d [unfolded e option.case])
  define m where "m = \<lfloor>\<bar>x\<bar> / 2 powi e\<rfloor>"
  have q: "\<bar>x\<bar> / 2 powi e = of_int m"
    unfolding m_def by (rule i [symmetric])
  have p: "(2 :: rat) powi e > 0"
    by simp
  have mx: "of_int m * 2 powi e = \<bar>x\<bar>"
    using q p by (simp add: field_simps)
  have m0: "m \<noteq> 0"
    using mx False by auto
  have "e \<le> 971" and "\<bar>x\<bar> < 2 powi (53 + e)"
    using e by (simp_all add: exponent_of_Some)
  moreover have "(2 :: rat) powi (53 + e) \<le> 2 powi 1024"
    using \<open>e \<le> 971\<close> by (intro powi2_mono) simp
  ultimately have lt: "\<bar>x\<bar> < 2 ^ 1024"
    by simp
  have "sgn x * \<bar>x\<bar> = x"
    by (simp add: sgn_mult_abs)
  then show ?thesis
    using False e m0 lt
    by (simp add: round_double_def q round_half_even_of_int mx not_le)
qed

text \<open>
  The doubles in the usual form: an integer significand of fewer than 54 binary digits
  times a power of two from \<open>2 ^ -1074\<close> to \<open>2 ^ 971\<close>.
\<close>

lemma is_doubleI:
  assumes "x = of_int m * 2 powi k" and "\<bar>m\<bar> < 2 ^ 53" and "- 1074 \<le> k" and "k \<le> 971"
  shows "is_double x"
proof (cases "x = 0")
  case True
  then show ?thesis by (simp add: is_double_def)
next
  case False
  have ax: "\<bar>x\<bar> = of_int \<bar>m\<bar> * 2 powi k"
    using assms(1) by (simp add: abs_mult)
  have "(of_int \<bar>m\<bar> :: rat) < 2 ^ 53"
    using assms(2) by (metis of_int_less_numeral_power_cancel_iff)
  then have "\<bar>x\<bar> < 2 ^ 53 * 2 powi k"
    using ax by simp
  also have "\<dots> = 2 powi (53 + k)"
    by (simp add: power_int_add)
  finally have "\<bar>x\<bar> < 2 powi (53 + k)" .
  then obtain e where e: "exponent_of \<bar>x\<bar> = Some e" and ek: "e \<le> k"
    using exponent_of_le [OF assms(3,4)] by blast
  have "(2 :: rat) powi k = 2 powi (k - e) * 2 powi e"
    by (simp add: power_int_add [symmetric])
  also have "(2 :: rat) powi (k - e) = 2 ^ nat (k - e)"
    using ek by (simp add: power_int_nonneg_exp)
  finally have "\<bar>x\<bar> / 2 powi e = of_int (\<bar>m\<bar> * 2 ^ nat (k - e))"
    using ax by simp
  then show ?thesis
    using e by (simp add: is_double_def)
qed

lemma is_double_of_int: "\<bar>n\<bar> < 2 ^ 53 \<Longrightarrow> is_double (of_int n)"
  by (rule is_doubleI [where m = n and k = 0]) simp_all

text \<open>\<open>2 ^ 53 + 1\<close> lies halfway between two doubles and rounds to the even one.\<close>

lemma round_double_huge: "round_double (9007199254740992 + 1) = Fin 9007199254740992"
proof -
  have e: "exponent_of \<bar>9007199254740993\<bar> = Some 1"
    by (rule exponent_of_binade) simp_all
  have f: "\<lfloor>9007199254740993 / 2 :: rat\<rfloor> = 4503599627370496"
    by (simp add: floor_eq_iff)
  have r: "round_half_even (9007199254740993 / 2) = 4503599627370496"
    by (simp add: round_half_even_def f)
  show ?thesis
    using e by (simp add: round_double_def r)
qed

text \<open>The sum of the doubles nearest to \<^verbatim>\<open>0.1\<close> and \<^verbatim>\<open>0.2\<close> rounds up.\<close>

lemma round_double_tenths:
  "round_double (3602879701896397 / 36028797018963968 + 3602879701896397 / 18014398509481984) =
     Fin (1351079888211149 / 4503599627370496)"
proof -
  have e: "exponent_of \<bar>10808639105689191 / 36028797018963968\<bar> = Some (- 54)"
    by (rule exponent_of_binade) (simp_all add: power_int_minus)
  have f: "\<lfloor>10808639105689191 / 2 :: rat\<rfloor> = 5404319552844595"
    by (simp add: floor_eq_iff)
  have r: "round_half_even (10808639105689191 / 2) = 5404319552844596"
    by (simp add: round_half_even_def f)
  show ?thesis
    using e by (simp add: round_double_def r power_int_minus)
qed

subsection \<open>The total\<close>

lemma js_or_zero_Num: "js_or (Num a) (Num 0) = Num a"
  by (simp add: js_or_def)

text \<open>The total of two finite fees is their exact sum, rounded.\<close>

lemma totalAmount_Num:
  "applicationFees s = Num a \<Longrightarrow> serviceCharge s = Num b \<Longrightarrow>
     totalAmount s = Number (round_double (a + b))"
  by (simp add: totalAmount_def js_or_zero_Num js_add_def)

lemma Checkout_totalAmount_eq: "Checkout_totalAmount s = totalAmount s"
  by (simp add: Checkout_totalAmount_def totalAmount_def)

lemma totalAmount_scholarship0: "totalAmount scholarship0 = Num 150"
proof -
  have "is_double (of_int 150)"
    by (rule is_double_of_int) simp
  then have "round_double (100 + 50) = Fin 150"
    using round_double_fixed [of 150] by simp
  then show ?thesis
    using totalAmount_Num [of scholarship0 100 50] by (simp add: scholarship0_def)
qed

lemma totalAmount_scholarship_free: "totalAmount scholarship_free = Num 0"
  by (simp add: totalAmount_def scholarship_free_def scholarship0_def js_or_def js_add_def
      round_double_def)

text \<open>Whatever a submission posts to \<^verbatim>\<open>/payments\<close>, or stores there, carries the total.\<close>

lemma payment_amounts_onSubmit:
  "set (map pay_amount (payment_posts (new_events w (onSubmit en s u f w)))) \<subseteq> {totalAmount s}
   \<and> set (map pay_amount (new_payments w (onSubmit en s u f w))) \<subseteq> {totalAmount s}"
  by (auto simp: onSubmit_defs new_defs paymentData_def split: await.splits option.splits)


text \<open>
  C9, as amended. For a scholarship whose \<^verbatim>\<open>applicationFees\<close> is the number \<open>a\<close> and
  whose \<^verbatim>\<open>serviceCharge\<close> is the number \<open>b\<close>, both at least zero, and whose sum
  \<open>a + b\<close> is itself a double (an integer \<open>m\<close> of fewer than 54 binary digits times
  \<open>2 ^ k\<close>, with \<open>k\<close> from \<open>-1074\<close> to \<open>971\<close>; every sum of whole-number fees up to
  \<open>2 ^ 53\<close> is one), the total of the order summary and the total of the form are
  \<open>a + b\<close>; a run of the payment intent effect asks for the amount \<open>a + b\<close> when that
  is positive and asks nothing otherwise; and every payment record a submission posts or
  stores has the amount \<open>a + b\<close>.
\<close>

theorem total_is_sum_when_representable:
  assumes "applicationFees s = Num a" and "serviceCharge s = Num b" and "0 \<le> a" and "0 \<le> b"
    and "a + b = of_int m * 2 powi k" and "\<bar>m\<bar> < 2 ^ 53" and "- 1074 \<le> k" and "k \<le> 971"
  shows "Checkout_totalAmount s = Num (a + b)
       \<and> totalAmount s = Num (a + b)
       \<and> intent_requests (new_events w (payment_intent_effect answer s w)) =
           (if 0 < a + b then [Num (a + b)] else [])
       \<and> pay_amount (paymentData s u p d) = Num (a + b)
       \<and> set (map pay_amount (payment_posts (new_events w (onSubmit en s u f w))))
           \<subseteq> {Num (a + b)}
       \<and> set (map pay_amount (new_payments w (onSubmit en s u f w))) \<subseteq> {Num (a + b)}"
proof -
  have "is_double (a + b)"
    using assms(5-8) by (rule is_doubleI)
  then have "round_double (a + b) = Fin (a + b)"
    by (rule round_double_fixed)
  then have t: "totalAmount s = Num (a + b)"
    using totalAmount_Num [OF assms(1,2)] by simp
  have c: "Checkout_totalAmount s = Num (a + b)"
    using t by (simp add: Checkout_totalAmount_eq)
  have e: "intent_requests (new_events w (payment_intent_effect answer s w)) =
           (if 0 < a + b then [Num (a + b)] else [])"
    by (simp add: payment_intent_effect_def t js_gt_zero_def prim_defs new_events_def Let_def
        split: await.splits)
  have p: "pay_amount (paymentData s u p d) = Num (a + b)"
    by (simp add: paymentData_def t)
  show ?thesis
    using c t e p payment_amounts_onSubmit [of w en s u f] by simp
qed

theorem total_is_sum_when_representable_witness:
  "applicationFees scholarship0 = Num 100 \<and> serviceCharge scholarship0 = Num 50
   \<and> (100 + 50 :: rat) = of_int 150 * 2 powi 0
   \<and> Checkout_totalAmount scholarship0 = Num 150
   \<and> totalAmount scholarship0 = Num 150
   \<and> intent_requests (new_events mount (payment_intent_effect (Resolves ''cs_1'') scholarship0 mount))
       = [Num 150]
   \<and> pay_amount (paymentData scholarship0 user0 intent0 ''2025-01-01T00:00:01.000Z'') = Num 150"
  using total_is_sum_when_representable
    [where s = scholarship0 and a = 100 and b = 50 and m = 150 and k = 0 and w = mount
       and answer = "Resolves ''cs_1''" and u = user0 and p = intent0
       and d = "''2025-01-01T00:00:01.000Z''"]
  by (simp add: scholarship0_def)

text \<open>
  C9 as written fails. With fees of \<open>2 ^ 53\<close> and \<open>1\<close>, both doubles, the total shown
  and charged is \<open>2 ^ 53\<close>, not \<open>2 ^ 53 + 1\<close>. With fees of \<^verbatim>\<open>0.1\<close> and \<^verbatim>\<open>0.2\<close> the
  total is the double above their sum, the one that prints as
  \<^verbatim>\<open>0.30000000000000004\<close>.
\<close>

theorem total_is_sum_counterexample:
  "applicationFees scholarship_huge = Num 9007199254740992
   \<and> serviceCharge scholarship_huge = Num 1
   \<and> well_formed (applicationFees scholarship_huge)
   \<and> well_formed (serviceCharge scholarship_huge)
   \<and> Checkout_totalAmount scholarship_huge = Num 9007199254740992
   \<and> totalAmount scholarship_huge = Num 9007199254740992
   \<and> totalAmount scholarship_huge \<noteq> Num (9007199254740992 + 1)
   \<and> well_formed (applicationFees scholarship_tenths)
   \<and> well_formed (serviceCharge scholarship_tenths)
   \<and> totalAmount scholarship_tenths = Num (1351079888211149 / 4503599627370496)
   \<and> totalAmount scholarship_tenths \<noteq>
       Num (3602879701896397 / 36028797018963968 + 3602879701896397 / 18014398509481984)"
proof -
  have h: "totalAmount scholarship_huge = Num 9007199254740992"
    using totalAmount_Num [of scholarship_huge 9007199254740992 1] round_double_huge
    by (simp add: scholarship_huge_def)
  have t: "totalAmount scholarship_tenths = Num (1351079888211149 / 4503599627370496)"
    using totalAmount_Num [of scholarship_tenths "3602879701896397 / 36028797018963968"
        "3602879701896397 / 18014398509481984"] round_double_tenths
    by (simp add: scholarship_tenths_def)
  have w1: "is_double 9007199254740992"
    by (rule is_doubleI [where m = 4503599627370496 and k = 1]) simp_all
  have w2: "is_double 1"
    by (rule is_doubleI [where m = 1 and k = 0]) simp_all
  have w3: "is_double (3602879701896397 / 36028797018963968)"
    by (rule is_doubleI [where m = 3602879701896397 and k = "- 55"])
       (simp_all add: power_int_minus)
  have w4: "is_double (3602879701896397 / 18014398509481984)"
    by (rule is_doubleI [where m = 3602879701896397 and k = "- 54"])
       (simp_all add: power_int_minus)
  show ?thesis
    using h t w1 w2 w3 w4
    by (simp add: Checkout_totalAmount_eq scholarship_huge_def scholarship_tenths_def)
qed





text \<open>Without a falsy field the total need not be a number: the infinities cancel.\<close>

lemma totalAmount_unbounded: "totalAmount scholarship_unbounded = Number NaN"
  by (simp add: totalAmount_def scholarship_unbounded_def scholarship0_def js_or_def js_add_def)



subsection \<open>The payment intent effect\<close>

lemma intent_requests_append:
  "intent_requests (xs @ ys) = intent_requests xs @ intent_requests ys"
  by (induction xs rule: intent_requests.induct) simp_all

lemma intent_requests_effect:
  "intent_requests (trace (payment_intent_effect answer s w)) =
     intent_requests (trace w) @ (if js_gt_zero (totalAmount s) then [totalAmount s] else [])"
  by (simp add: payment_intent_effect_def prim_defs Let_def intent_requests_append
      split: await.splits)

lemma remdups_adj_head: "remdups_adj (x # xs) = x # tl (remdups_adj (x # xs))"
  by (cases "remdups_adj (x # xs)") (use hd_remdups_adj [of "x # xs"] in auto)

lemma fst_deps: "fst (deps r) = totalAmount (r_scholarship r)"
  by (simp add: deps_def)

text \<open>
  The requests a sequence of renders makes: one for each dependency value at which the
  effect runs and whose total is positive.
\<close>

lemma intent_requests_renders:
  "intent_requests (trace (renders prev rs w)) =
     intent_requests (trace w) @ filter js_gt_zero (map fst (runs_at prev (map deps rs)))"
proof (induction rs arbitrary: prev w)
  case Nil
  show ?case by (cases prev) simp_all
next
  case (Cons r rs)
  define k where "k = runs_at (Some (deps r)) (map deps rs)"
  have h: "remdups_adj (deps r # map deps rs) = deps r # k"
    unfolding k_def runs_at.simps by (rule remdups_adj_head)
  have step: "intent_requests (trace (renders (Some (deps r)) rs v)) =
              intent_requests (trace v) @ filter js_gt_zero (map fst k)" for v
    unfolding k_def by (rule Cons.IH)
  show ?case
  proof (cases prev)
    case None
    then show ?thesis
      by (simp add: effect_runs_def step intent_requests_effect h fst_deps)
  next
    case (Some p)
    then show ?thesis
      by (cases "p = deps r") (simp_all add: effect_runs_def step intent_requests_effect h fst_deps)
  qed
qed

text \<open>While the total is zero the renders change nothing.\<close>

lemma renders_zero:
  "\<forall>r \<in> set rs. totalAmount (r_scholarship r) = Num 0 \<Longrightarrow> renders prev rs w = w"
  by (induction rs arbitrary: prev) (simp_all add: payment_intent_effect_def js_gt_zero_def)

text \<open>With one HTTP client object throughout, the dependencies change when the total does.\<close>

lemma deps_stable:
  assumes "\<forall>r \<in> set rs. r_axiosSecure r = ax"
  shows "map fst (remdups_adj (map deps rs)) =
         remdups_adj (map (\<lambda>r. totalAmount (r_scholarship r)) rs)"
proof -
  have i: "inj (\<lambda>t :: jsval. (t, ax))"
    by (simp add: inj_on_def)
  have m: "map deps rs = map (\<lambda>t. (t, ax)) (map (\<lambda>r. totalAmount (r_scholarship r)) rs)"
    using assms by (simp add: deps_def)
  have "remdups_adj (map deps rs) =
        map (\<lambda>t. (t, ax)) (remdups_adj (map (\<lambda>r. totalAmount (r_scholarship r)) rs))"
    by (simp only: m remdups_adj_map_injective [OF i])
  then show ?thesis
    by (simp add: comp_def)
qed

text \<open>The positive totals among finite ones, in the order of a list.\<close>

lemma filter_gt_zero_Num:
  "filter js_gt_zero (map Num ts) = map Num (filter (\<lambda>t. 0 < t) ts)"
  by (induction ts) (simp_all add: js_gt_zero_def)

lemma remdups_adj_Num: "remdups_adj (map Num ts) = map Num (remdups_adj ts)"
  by (rule remdups_adj_map_injective) (simp add: inj_on_def)

lemma count_list_distinct: "distinct xs \<Longrightarrow> count_list xs x = (if x \<in> set xs then 1 else 0)"
  by (induction xs) auto

lemma count_list_Num: "count_list (map Num xs) (Num t) = count_list xs t"
  by (induction xs) simp_all

lemma remdups_adj_constant:
  "xs \<noteq> [] \<Longrightarrow> \<forall>x \<in> set xs. x = t \<Longrightarrow> remdups_adj xs = [t]"
proof (induction xs rule: remdups_adj.induct)
  case (3 x y xs)
  then show ?case by simp
qed simp_all

text \<open>
  C7. The hook \<^verbatim>\<open>useAxiosSecure\<close> is not part of the page; the object it returns is a
  parameter, \<open>ax\<close>, the same in every render of a mounted form. The totals of the renders
  are the finite numbers \<open>ts\<close>. Then:
  \<^item> a run of the effect asks the backend for a payment intent if and only if the total is
    greater than zero: for a finite total \<open>t\<close> exactly when \<open>0 < t\<close>, for an infinite one
    exactly when it is the positive infinity, and never for \<^verbatim>\<open>NaN\<close> or a zero;
  \<^item> over the renders, the amounts requested are the positive ones among the totals, each
    run of equal adjacent totals counted once: a request is made at the first render and
    again only where the total differs from the previous render's;
  \<^item> when the total is the same \<open>t\<close> in every render, there is exactly one request if
    \<open>0 < t\<close> and none otherwise;
  \<^item> when no total comes back after a change, every positive total is requested exactly
    once and no other total is requested;
  \<^item> when the total is zero in every render, no request is made, the authorization handle
    stays as it was, and a form that had none keeps its submit control disabled.
\<close>

theorem intent_requested_once_per_total:
  assumes "\<forall>r \<in> set rs. r_axiosSecure r = ax"
    and "map (\<lambda>r. totalAmount (r_scholarship r)) rs = map Num ts"
  shows "intent_requests (trace (payment_intent_effect answer s w)) =
           intent_requests (trace w)
           @ (case totalAmount s of
                Number (Fin t) \<Rightarrow> if 0 < t then [Num t] else []
              | Number PosInfinity \<Rightarrow> [Number PosInfinity]
              | _ \<Rightarrow> [])
       \<and> intent_requests (trace (renders None rs w)) =
           intent_requests (trace w) @ map Num (filter (\<lambda>t. 0 < t) (remdups_adj ts))
       \<and> (rs \<noteq> [] \<and> (\<forall>x \<in> set ts. x = t) \<longrightarrow>
            intent_requests (trace (renders None rs w)) =
              intent_requests (trace w) @ (if 0 < t then [Num t] else []))
       \<and> (distinct (remdups_adj ts) \<longrightarrow>
            (\<forall>x \<in> set ts.
               count_list (intent_requests (trace (renders None rs w))) (Num x) =
                 count_list (intent_requests (trace w)) (Num x) + (if 0 < x then 1 else 0)))
       \<and> ((\<forall>x \<in> set ts. x = 0) \<longrightarrow>
            intent_requests (trace (renders None rs w)) = intent_requests (trace w)
            \<and> clientSecret (renders None rs w) = clientSecret w
            \<and> (clientSecret w = [] \<longrightarrow> submit_disabled (renders None rs w)))"
proof (intro conjI impI ballI)
  show "intent_requests (trace (payment_intent_effect answer s w)) =
           intent_requests (trace w)
           @ (case totalAmount s of
                Number (Fin t) \<Rightarrow> if 0 < t then [Num t] else []
              | Number PosInfinity \<Rightarrow> [Number PosInfinity]
              | _ \<Rightarrow> [])"
    by (simp add: intent_requests_effect js_gt_zero_def split: jsval.splits number.splits)
  have "intent_requests (trace (renders None rs w)) =
        intent_requests (trace w) @ filter js_gt_zero (map fst (remdups_adj (map deps rs)))"
    using intent_requests_renders [of None rs w] by simp
  then show a: "intent_requests (trace (renders None rs w)) =
      intent_requests (trace w) @ map Num (filter (\<lambda>t. 0 < t) (remdups_adj ts))"
    by (simp add: deps_stable [OF assms(1)] assms(2) remdups_adj_Num filter_gt_zero_Num)
  show "intent_requests (trace (renders None rs w)) =
          intent_requests (trace w) @ (if 0 < t then [Num t] else [])"
    if "rs \<noteq> [] \<and> (\<forall>x \<in> set ts. x = t)"
  proof -
    have "ts \<noteq> []"
      using that assms(2) by auto
    then have "remdups_adj ts = [t]"
      using that by (intro remdups_adj_constant) simp_all
    then show ?thesis
      using a by simp
  qed
  show "count_list (intent_requests (trace (renders None rs w))) (Num x) =
          count_list (intent_requests (trace w)) (Num x) + (if 0 < x then 1 else 0)"
    if "distinct (remdups_adj ts)" and "x \<in> set ts" for x
  proof -
    have "distinct (filter (\<lambda>t. 0 < t) (remdups_adj ts))"
      using that(1) by simp
    then have "count_list (filter (\<lambda>t. 0 < t) (remdups_adj ts)) x = (if 0 < x then 1 else 0)"
      using that(2) by (simp add: count_list_distinct)
    then show ?thesis
      by (simp add: a count_list_Num)
  qed
next
  assume z: "\<forall>x \<in> set ts. x = 0"
  have "\<forall>v \<in> set (map (\<lambda>r. totalAmount (r_scholarship r)) rs). v = Num 0"
    unfolding assms(2) using z by simp
  then have "\<forall>r \<in> set rs. totalAmount (r_scholarship r) = Num 0"
    by simp
  then have e: "renders None rs w = w"
    by (rule renders_zero)
  show "intent_requests (trace (renders None rs w)) = intent_requests (trace w)"
    by (simp add: e)
  show "clientSecret (renders None rs w) = clientSecret w"
    by (simp add: e)
  show "submit_disabled (renders None rs w)" if "clientSecret w = []"
    using that by (simp add: e submit_disabled_def)
qed

text \<open>
  With one client object: the total is 150 in two renders, 0 in the third and 150 again in
  the fourth, and 150 is requested at the first and at the fourth. With the total 150 in
  every render it is requested once. A form whose total is always zero requests nothing
  and stays disabled once the payment SDK has loaded.
\<close>

theorem intent_requested_once_per_total_witness:
  "intent_requests (trace (renders None [render0, render0, render_free, render0] mount)) =
     [Num 150, Num 150]
   \<and> intent_requests (trace (renders None [render0, render0, render0] mount)) = [Num 150]
   \<and> count_list (intent_requests (trace (renders None [render0, render0, render_free] mount)))
       (Num 150) = 1
   \<and> intent_requests (trace (renders None [render_free, render_free] mount)) = []
   \<and> submit_disabled (renders None [render_free, render_free] (mount\<lparr>stripe := True\<rparr>))"
proof -
  have t0: "totalAmount (r_scholarship render0) = Num 150"
    by (simp add: render0_def totalAmount_scholarship0)
  have tf: "totalAmount (r_scholarship render_free) = Num 0"
    by (simp add: render_free_def totalAmount_scholarship_free)
  have ax: "r_axiosSecure render0 = 0" "r_axiosSecure render_free = 0"
    by (simp_all add: render0_def render_free_def)
  show ?thesis
    using intent_requested_once_per_total
        [where rs = "[render0, render0, render_free, render0]" and ax = 0
           and ts = "[150, 150, 0, 150]" and w = mount]
      intent_requested_once_per_total
        [where rs = "[render0, render0, render0]" and ax = 0 and ts = "[150, 150, 150]"
           and t = 150 and w = mount]
      intent_requested_once_per_total
        [where rs = "[render0, render0, render_free]" and ax = 0 and ts = "[150, 150, 0]"
           and w = mount]
      intent_requested_once_per_total
        [where rs = "[render_free, render_free]" and ax = 0 and ts = "[0, 0]"
           and w = "mount\<lparr>stripe := True\<rparr>"]
      intent_requested_once_per_total
        [where rs = "[render_free, render_free]" and ax = 0 and ts = "[0, 0]" and w = mount]
    by (simp add: t0 tf ax mount_def)
qed

text \<open>
  The dependency array of line 39 lists the client object too. Should the hook hand over
  another object in a later render, the effect runs again and asks for the same amount.
\<close>

lemma intent_requested_again_for_another_client:
  "intent_requests (trace (renders None [render0, render1] mount)) = [Num 150, Num 150]"
proof -
  have "totalAmount scholarship0 = Num 150"
    by (rule totalAmount_scholarship0)
  then show ?thesis
    by (simp add: render0_def render1_def mount_def deps_def effect_runs_def
        payment_intent_effect_def js_gt_zero_def prim_defs)
qed

subsection \<open>The charge succeeds\<close>

text \<open>
  C1, as amended. When a submission reaches the charge confirmation, the confirmation
  answers without error and with the status \<^verbatim>\<open>'succeeded'\<close>, transaction id \<open>t\<close> and
  total \<open>m\<close>, and the two POSTs that follow both resolve, then the submission adds to the
  trace exactly: the POST of the application record with \<^verbatim>\<open>paymentStatus\<close> paid, then
  the POST of the payment record with transaction id \<open>t\<close> and amount \<open>m\<close>, then the
  navigation to \<^verbatim>\<open>/payment-success\<close> with the scholarship name, the university name,
  \<open>m\<close> and \<open>t\<close>, then the clearing of the flag; and exactly these two records are
  stored.
\<close>

theorem success_sequence:
  assumes "stripe w" and "elements w" and "cardElement en"
    and "createPaymentMethod_result en = Resolves mr"
    and "methodError mr = None" and "paymentMethod mr = Some pm"
    and "confirmCardPayment_result en = Resolves cr"
    and "confirmError cr = None" and "paymentIntent cr = Some p"
    and "pi_status p = ''succeeded''" and "pi_id p = t" and "totalAmount s = m"
    and "post_applications_result en = Resolves ()"
    and "post_payments_result en = Resolves ()"
  shows "new_events w (onSubmit en s u f w) =
           [SetProcessing True,
            CreatePaymentMethod (displayName u) (email u),
            ConfirmCardPayment (clientSecret w) (pm_id pm),
            PostApplications (applicationData s u f ''paid'' (now_application en)),
            PostPayments (paymentData s u p (now_payment en)),
            Navigate ''/payment-success''
              (SuccessState \<lparr> ss_scholarshipName = scholarshipName s,
                              ss_universityName = universityName s,
                              ss_amount = m, ss_transactionId = t \<rparr>),
            SetProcessing False]
       \<and> new_applications w (onSubmit en s u f w) =
           [applicationData s u f ''paid'' (now_application en)]
       \<and> app_paymentStatus (applicationData s u f ''paid'' (now_application en)) = ''paid''
       \<and> new_payments w (onSubmit en s u f w) = [paymentData s u p (now_payment en)]
       \<and> pay_transactionId (paymentData s u p (now_payment en)) = t
       \<and> pay_amount (paymentData s u p (now_payment en)) = m"
  using assms
  by (simp add: onSubmit_defs new_defs successState_def applicationData_def paymentData_def)

theorem success_sequence_witness:
  "confirmCardPayment_result env_paid =
     Resolves \<lparr> confirmError = None,
                paymentIntent = Some \<lparr> pi_id = ''pi_123'', pi_status = ''succeeded'' \<rparr> \<rparr>
   \<and> totalAmount scholarship0 = Num 150
   \<and> map app_paymentStatus
       (new_applications ready0 (onSubmit env_paid scholarship0 user0 form0 ready0)) = [''paid'']
   \<and> map pay_transactionId
       (new_payments ready0 (onSubmit env_paid scholarship0 user0 form0 ready0)) = [''pi_123'']
   \<and> map pay_amount
       (new_payments ready0 (onSubmit env_paid scholarship0 user0 form0 ready0)) = [Num 150]
   \<and> navigations (new_events ready0 (onSubmit env_paid scholarship0 user0 form0 ready0)) =
       [(''/payment-success'',
         SuccessState \<lparr> ss_scholarshipName = ''Merit'', ss_universityName = ''MIT'',
                        ss_amount = Num 150, ss_transactionId = ''pi_123'' \<rparr>)]"
  using success_sequence
    [where w = ready0 and en = env_paid and s = scholarship0 and u = user0 and f = form0
       and mr = "\<lparr> methodError = None, paymentMethod = Some \<lparr> pm_id = ''pm_1'' \<rparr> \<rparr>"
       and pm = "\<lparr> pm_id = ''pm_1'' \<rparr>"
       and cr = "\<lparr> confirmError = None, paymentIntent = Some intent0 \<rparr>"
       and p = intent0 and t = "''pi_123''" and m = "Num 150"]
  by (simp add: example_defs totalAmount_scholarship0 [unfolded scholarship0_def]
        applicationData_def paymentData_def)

text \<open>
  C1 as written fails: the charge succeeds with transaction id \<^verbatim>\<open>pi_123\<close>, the backend
  rejects the POST to \<^verbatim>\<open>/applications\<close>, and the submission stores no application
  record, posts and stores no payment record and does not navigate.
\<close>

theorem success_sequence_counterexample:
  "stripe ready0 \<and> elements ready0 \<and> cardElement env_paid_applications_down
   \<and> createPaymentMethod_result env_paid_applications_down =
       Resolves \<lparr> methodError = None, paymentMethod = Some \<lparr> pm_id = ''pm_1'' \<rparr> \<rparr>
   \<and> confirmCardPayment_result env_paid_applications_down =
       Resolves \<lparr> confirmError = None,
                  paymentIntent = Some \<lparr> pi_id = ''pi_123'', pi_status = ''succeeded'' \<rparr> \<rparr>
   \<and> db_applications (onSubmit env_paid_applications_down scholarship0 user0 form0 ready0) = []
   \<and> db_payments (onSubmit env_paid_applications_down scholarship0 user0 form0 ready0) = []
   \<and> payment_posts (trace (onSubmit env_paid_applications_down scholarship0 user0 form0 ready0))
       = []
   \<and> navigations (trace (onSubmit env_paid_applications_down scholarship0 user0 form0 ready0))
       = []"
  by (simp add: example_defs onSubmit_defs)

subsection \<open>The charge is declined\<close>

text \<open>
  C2, as amended. When a submission reaches the charge confirmation, the confirmation
  answers with an error, and the POST to \<^verbatim>\<open>/applications\<close> resolves, then the
  submission adds to the trace exactly: the POST of the application record with
  \<^verbatim>\<open>paymentStatus\<close> unpaid, then the navigation to \<^verbatim>\<open>/payment-failed\<close> with the
  scholarship name and the provider's message, then the clearing of the flag; exactly
  that one application record is stored, and no payment record.
\<close>

theorem declined_sequence:
  assumes "stripe w" and "elements w" and "cardElement en"
    and "createPaymentMethod_result en = Resolves mr"
    and "methodError mr = None" and "paymentMethod mr = Some pm"
    and "confirmCardPayment_result en = Resolves cr"
    and "confirmError cr = Some ce"
    and "post_applications_result en = Resolves ()"
  shows "new_events w (onSubmit en s u f w) =
           [SetProcessing True,
            CreatePaymentMethod (displayName u) (email u),
            ConfirmCardPayment (clientSecret w) (pm_id pm),
            PostApplications (applicationData s u f ''unpaid'' (now_application en)),
            Navigate ''/payment-failed''
              (FailedState \<lparr> fs_scholarshipName = scholarshipName s,
                             fs_error = message ce \<rparr>),
            SetProcessing False]
       \<and> new_applications w (onSubmit en s u f w) =
           [applicationData s u f ''unpaid'' (now_application en)]
       \<and> app_paymentStatus (applicationData s u f ''unpaid'' (now_application en)) = ''unpaid''
       \<and> new_payments w (onSubmit en s u f w) = []"
  using assms
  by (simp add: onSubmit_defs new_defs failedState_def applicationData_def)

theorem declined_sequence_witness:
  "confirmCardPayment_result env_declined =
     Resolves \<lparr> confirmError = Some \<lparr> message = ''Your card was declined'' \<rparr>,
                paymentIntent = None \<rparr>
   \<and> map app_paymentStatus
       (new_applications ready0 (onSubmit env_declined scholarship0 user0 form0 ready0)) =
       [''unpaid'']
   \<and> navigations (new_events ready0 (onSubmit env_declined scholarship0 user0 form0 ready0)) =
       [(''/payment-failed'',
         FailedState \<lparr> fs_scholarshipName = ''Merit'', fs_error = ''Your card was declined'' \<rparr>)]
   \<and> new_payments ready0 (onSubmit env_declined scholarship0 user0 form0 ready0) = []"
  using declined_sequence
    [where w = ready0 and en = env_declined and s = scholarship0 and u = user0 and f = form0
       and mr = "\<lparr> methodError = None, paymentMethod = Some \<lparr> pm_id = ''pm_1'' \<rparr> \<rparr>"
       and pm = "\<lparr> pm_id = ''pm_1'' \<rparr>"
       and cr = "\<lparr> confirmError = Some \<lparr> message = ''Your card was declined'' \<rparr>,
                   paymentIntent = None \<rparr>"
       and ce = "\<lparr> message = ''Your card was declined'' \<rparr>"]
  by (simp add: example_defs applicationData_def)

text \<open>
  C2 as written fails: the charge is declined, the backend rejects the POST to
  \<^verbatim>\<open>/applications\<close>, and the submission stores no application record and does not
  navigate; it shows the generic toast.
\<close>

theorem declined_sequence_counterexample:
  "stripe ready0 \<and> elements ready0 \<and> cardElement env_declined_applications_down
   \<and> createPaymentMethod_result env_declined_applications_down =
       Resolves \<lparr> methodError = None, paymentMethod = Some \<lparr> pm_id = ''pm_1'' \<rparr> \<rparr>
   \<and> confirmCardPayment_result env_declined_applications_down =
       Resolves \<lparr> confirmError = Some \<lparr> message = ''Your card was declined'' \<rparr>,
                  paymentIntent = None \<rparr>
   \<and> db_applications (onSubmit env_declined_applications_down scholarship0 user0 form0 ready0)
       = []
   \<and> navigations (trace (onSubmit env_declined_applications_down scholarship0 user0 form0 ready0))
       = []
   \<and> toasts (trace (onSubmit env_declined_applications_down scholarship0 user0 form0 ready0)) =
       [''Payment processing failed'']"
  by (simp add: example_defs onSubmit_defs)

subsection \<open>Application records and payment records\<close>

text \<open>
  C3, as amended. In every submission a payment record is stored if and only if an
  application record with \<^verbatim>\<open>paymentStatus\<close> paid is stored by that submission and the
  POST to \<^verbatim>\<open>/payments\<close> resolves. So no payment record is stored without a paid
  application, and a paid application is left without its payment record exactly when
  that POST is rejected.
\<close>

theorem payment_iff_paid_application_and_post:
  "(new_payments w (onSubmit en s u f w) \<noteq> []) =
     (''paid'' \<in> set (map app_paymentStatus (new_applications w (onSubmit en s u f w)))
      \<and> post_payments_result en = Resolves ())"
  by (auto simp: onSubmit_defs new_defs applicationData_def split: await.splits option.splits)

theorem payment_iff_paid_application_and_post_witness:
  "new_payments ready0 (onSubmit env_paid scholarship0 user0 form0 ready0) \<noteq> []
   \<and> ''paid'' \<in> set (map app_paymentStatus
        (new_applications ready0 (onSubmit env_paid scholarship0 user0 form0 ready0)))
   \<and> post_payments_result env_paid = Resolves ()"
  using payment_iff_paid_application_and_post
    [where w = ready0 and en = env_paid and s = scholarship0 and u = user0 and f = form0]
  by (simp add: example_defs onSubmit_defs new_defs applicationData_def)

text \<open>
  C3 as written fails: the charge succeeds, the POST to \<^verbatim>\<open>/applications\<close> resolves and
  the POST to \<^verbatim>\<open>/payments\<close> is rejected. The submission has stored an application record
  with \<^verbatim>\<open>paymentStatus\<close> paid and no payment record.
\<close>

theorem payment_iff_paid_application_counterexample:
  "map app_paymentStatus
     (new_applications ready0 (onSubmit env_paid_payments_down scholarship0 user0 form0 ready0)) =
     [''paid'']
   \<and> new_payments ready0 (onSubmit env_paid_payments_down scholarship0 user0 form0 ready0) = []
   \<and> db_payments (onSubmit env_paid_payments_down scholarship0 user0 form0 ready0) = []"
  by (simp add: example_defs onSubmit_defs new_defs applicationData_def)

text \<open>
  C4, as amended. When a submission reaches the charge confirmation and the confirmation
  answers with an error, or without error and with the status \<^verbatim>\<open>'succeeded'\<close>, the
  submission makes exactly one POST to \<^verbatim>\<open>/applications\<close>; its \<^verbatim>\<open>paymentStatus\<close> is
  unpaid in the first case and paid in the second; no such POST is made before the call
  of \<^verbatim>\<open>confirmCardPayment\<close>; and the record is stored if and only if the POST resolves,
  so at most one application record is stored.
\<close>

theorem one_application_post_after_confirmation:
  assumes "stripe w" and "elements w" and "cardElement en"
    and "createPaymentMethod_result en = Resolves mr"
    and "methodError mr = None" and "paymentMethod mr = Some pm"
    and "confirmCardPayment_result en = Resolves cr"
    and "confirmError cr \<noteq> None
         \<or> (\<exists>p. paymentIntent cr = Some p \<and> pi_status p = ''succeeded'')"
  shows "application_posts (new_events w (onSubmit en s u f w)) =
           [applicationData s u f (if confirmError cr = None then ''paid'' else ''unpaid'')
              (now_application en)]
       \<and> application_posts (before_confirm (new_events w (onSubmit en s u f w))) = []
       \<and> new_applications w (onSubmit en s u f w) =
           (if post_applications_result en = Resolves ()
            then [applicationData s u f (if confirmError cr = None then ''paid'' else ''unpaid'')
                    (now_application en)]
            else [])"
  using assms
  by (auto simp: onSubmit_defs new_defs split: await.splits option.splits)

theorem one_application_post_after_confirmation_witness:
  "confirmCardPayment_result env_paid_payments_down =
     Resolves \<lparr> confirmError = None,
                paymentIntent = Some \<lparr> pi_id = ''pi_123'', pi_status = ''succeeded'' \<rparr> \<rparr>
   \<and> map app_paymentStatus (application_posts
        (new_events ready0 (onSubmit env_paid_payments_down scholarship0 user0 form0 ready0))) =
       [''paid'']
   \<and> application_posts (before_confirm
        (new_events ready0 (onSubmit env_paid_payments_down scholarship0 user0 form0 ready0))) = []
   \<and> map app_paymentStatus
       (new_applications ready0 (onSubmit env_paid_payments_down scholarship0 user0 form0 ready0))
       = [''paid'']"
  using one_application_post_after_confirmation
    [where w = ready0 and en = env_paid_payments_down and s = scholarship0 and u = user0
       and f = form0
       and mr = "\<lparr> methodError = None, paymentMethod = Some \<lparr> pm_id = ''pm_1'' \<rparr> \<rparr>"
       and pm = "\<lparr> pm_id = ''pm_1'' \<rparr>"
       and cr = "\<lparr> confirmError = None, paymentIntent = Some intent0 \<rparr>"]
  by (simp add: example_defs onSubmit_defs new_defs applicationData_def)

text \<open>
  C4 as written fails: the charge confirmation resolves with the error of a declined
  card, the one POST to \<^verbatim>\<open>/applications\<close> is rejected, and no application record is
  stored.
\<close>

theorem one_application_record_counterexample:
  "confirmCardPayment_result env_declined_applications_down =
     Resolves \<lparr> confirmError = Some \<lparr> message = ''Your card was declined'' \<rparr>,
                paymentIntent = None \<rparr>
   \<and> map app_paymentStatus (application_posts
        (new_events ready0
           (onSubmit env_declined_applications_down scholarship0 user0 form0 ready0))) =
       [''unpaid'']
   \<and> new_applications ready0
       (onSubmit env_declined_applications_down scholarship0 user0 form0 ready0) = []"
  by (simp add: example_defs onSubmit_defs new_defs applicationData_def)

subsection \<open>Exceptions\<close>

text \<open>
  C5, as amended. When an exception leaves the \<^verbatim>\<open>try\<close> block of a submission (an
  awaited call rejects, or a result lacks the object that is read), the generic toast is
  the one toast shown, no payment record is stored and the submission does not navigate.
  No application record is stored either, unless the exception is the rejection of the
  POST to \<^verbatim>\<open>/payments\<close>: then the application record with \<^verbatim>\<open>paymentStatus\<close> paid, stored
  just before, remains. The processing flag is cleared when the handler ends, after an
  exception and on every other path that set it: a submission that passes the first guard
  ends with the flag cleared, and one that does not changes nothing.
\<close>

theorem exception_outcome:
  "(throws en s u f w \<longrightarrow>
      toasts (new_events w (onSubmit en s u f w)) = [''Payment processing failed'']
      \<and> \<not> processing (onSubmit en s u f w)
      \<and> new_payments w (onSubmit en s u f w) = []
      \<and> navigations (new_events w (onSubmit en s u f w)) = []
      \<and> new_applications w (onSubmit en s u f w) =
          (if payment_posts (new_events w (onSubmit en s u f w)) = [] then []
           else [applicationData s u f ''paid'' (now_application en)]))
   \<and> (stripe w \<and> elements w \<longrightarrow> \<not> processing (onSubmit en s u f w))
   \<and> (\<not> (stripe w \<and> elements w) \<longrightarrow> onSubmit en s u f w = w)"
  by (auto simp: throws_def onSubmit_defs new_defs split: await.splits option.splits)

theorem exception_outcome_witness:
  "throws env_confirm_rejects scholarship0 user0 form0 ready0
   \<and> toasts (new_events ready0 (onSubmit env_confirm_rejects scholarship0 user0 form0 ready0)) =
       [''Payment processing failed'']
   \<and> new_applications ready0 (onSubmit env_confirm_rejects scholarship0 user0 form0 ready0) = []
   \<and> new_payments ready0 (onSubmit env_confirm_rejects scholarship0 user0 form0 ready0) = []
   \<and> \<not> processing (onSubmit env_confirm_rejects scholarship0 user0 form0 ready0)
   \<and> onSubmit env_confirm_rejects scholarship0 user0 form0 mount = mount"
  using exception_outcome
    [where w = ready0 and en = env_confirm_rejects and s = scholarship0 and u = user0
       and f = form0]
    exception_outcome
    [where w = mount and en = env_confirm_rejects and s = scholarship0 and u = user0
       and f = form0]
  by (simp add: example_defs throws_def onSubmit_defs new_defs)

text \<open>
  C5 as written fails: the charge succeeds, the POST to \<^verbatim>\<open>/applications\<close> resolves, and
  the rejection of the POST to \<^verbatim>\<open>/payments\<close> is the exception. The generic toast is
  shown and an application record, with \<^verbatim>\<open>paymentStatus\<close> paid, is stored.
\<close>

theorem exception_leaves_application_counterexample:
  "throws env_paid_payments_down scholarship0 user0 form0 ready0
   \<and> toasts (trace (onSubmit env_paid_payments_down scholarship0 user0 form0 ready0)) =
       [''Payment processing failed'']
   \<and> map app_paymentStatus
       (db_applications (onSubmit env_paid_payments_down scholarship0 user0 form0 ready0)) =
       [''paid'']"
  by (simp add: example_defs throws_def onSubmit_defs applicationData_def)

end
